theory Spec2Isabelle
  imports Main "HOL-Library.Product_Lexorder"
begin

section \<open>Dates, rows and query sets\<close>

text \<open>
  A Python \<^verbatim>\<open>date\<close> is its (year, month, day). Dates compare chronologically, which is the
  lexicographic order of the triple. A \<^verbatim>\<open>datetime\<close> adds the time of day (hour, minute,
  second); its method \<^verbatim>\<open>date()\<close> drops the time.
\<close>

type_synonym date = "nat \<times> nat \<times> nat"

type_synonym datetime = "date \<times> nat \<times> nat \<times> nat"

definition datetime_date :: "datetime \<Rightarrow> date" where
  "datetime_date dt = fst dt"

text \<open>
  A Django \<^verbatim>\<open>QuerySet\<close> is lazy: it is a WHERE clause over the rows of a table, not a list
  of rows. \<^verbatim>\<open>filter\<close> conjoins a condition, iterating it selects the rows that satisfy the
  clause at that moment, and \<^verbatim>\<open>update\<close> rewrites the rows that satisfy it (one UPDATE
  statement: no \<^verbatim>\<open>save()\<close>, no signal, no other column touched). The table is the list
  of its rows, in the order in which the query set yields them.
\<close>

type_synonym 'r queryset = "'r \<Rightarrow> bool"

definition queryset_filter :: "'r queryset \<Rightarrow> ('r \<Rightarrow> bool) \<Rightarrow> 'r queryset" where
  "queryset_filter qs cond = (\<lambda>r. qs r \<and> cond r)"

definition queryset_rows :: "'r queryset \<Rightarrow> 'r list \<Rightarrow> 'r list" where
  "queryset_rows qs table = filter qs table"

definition queryset_update :: "'r queryset \<Rightarrow> ('r \<Rightarrow> 'r) \<Rightarrow> 'r list \<Rightarrow> 'r list" where
  "queryset_update qs assign table = map (\<lambda>r. if qs r then assign r else r) table"

text \<open>
  Field lookups on a nullable date column. In SQL a comparison with NULL is not true, so a
  row whose column is NULL passes neither \<^verbatim>\<open>__lte\<close> nor \<^verbatim>\<open>__gte\<close>; the filters below
  combine lookups with AND and OR only, where that is all of the three-valued logic.
\<close>

definition lte :: "date option \<Rightarrow> date \<Rightarrow> bool" where
  "lte col d = (case col of None \<Rightarrow> False | Some v \<Rightarrow> v \<le> d)"

definition gte :: "date option \<Rightarrow> date \<Rightarrow> bool" where
  "gte col d = (case col of None \<Rightarrow> False | Some v \<Rightarrow> d \<le> v)"

definition isnull :: "date option \<Rightarrow> bool" where
  "isnull col = (col = None)"

section \<open>Leaves, timesheets and the database\<close>

text \<open>
  What \<^verbatim>\<open>str\<close> makes of a date: ISO 8601, \<^verbatim>\<open>YYYY-MM-DD\<close>, zero padded (years run from 1
  to 9999 in Python).
\<close>

definition digit :: "nat \<Rightarrow> char" where
  "digit n = ''0123456789'' ! (n mod 10)"

definition str_date :: "date \<Rightarrow> string" where
  "str_date d = (case d of (y, m, dd) \<Rightarrow>
     [digit (y div 1000), digit (y div 100), digit (y div 10), digit y] @ ''-'' @
     [digit (m div 10), digit m] @ ''-'' @ [digit (dd div 10), digit dd])"

text \<open>
  The exceptions that the code below can meet. Django's \<^verbatim>\<open>RelatedObjectDoesNotExist\<close>, raised
  by a reverse one-to-one accessor that finds no row, is a subclass of \<^verbatim>\<open>AttributeError\<close>.
  \<^verbatim>\<open>BadHeaderError\<close> is what Django raises for a mail header with a line break in it, and
  \<^verbatim>\<open>SMTPException\<close> stands for what the mail backend raises when it cannot deliver.
\<close>

datatype error =
  AttributeError | RelatedObjectDoesNotExist | BadHeaderError | SMTPException | DatabaseError

definition is_AttributeError :: "error \<Rightarrow> bool" where
  "is_AttributeError e = (e = AttributeError \<or> e = RelatedObjectDoesNotExist)"

text \<open>
  Modelled from the spec: \<^verbatim>\<open>models.Leave.STATUS\<close> and \<^verbatim>\<open>models.Timesheet.STATUS\<close> are declared
  in models.py, which is not among the sources. They are the "status enumeration" of the
  spec: the members that admin.py names, taken as distinct values, and for leaves any
  further member under its name.
\<close>

datatype leave_status = APPROVED | REJECTED | LEAVE_STATUS string

datatype timesheet_status = CLOSED | ACTIVE | PENDING

text \<open>
  The columns that admin.py reads. A leave type and a description stand for what \<^verbatim>\<open>str\<close>
  makes of them (\<^verbatim>\<open>LeaveType.__str__\<close> is declared in models.py). \<open>leavedate_set\<close> lists the
  leave's dates in the order of the related manager, so that \<^verbatim>\<open>first()\<close> and \<^verbatim>\<open>last()\<close> are
  its ends. Two records that share a field name are told apart by the record's name:
  \<open>leave.status\<close>, \<open>timesheet.status\<close>.
\<close>

record user =
  first_name :: string
  email :: string

record leavedate =
  starts_at :: datetime
  ends_at :: datetime

record leave =
  user :: user
  leave_type :: string
  description :: string
  status :: leave_status
  leavedate_set :: "leavedate list"

record timesheet =
  user :: user
  month :: nat
  year :: nat
  status :: timesheet_status

record mail =
  subject :: string
  message :: string
  from_email :: string
  recipient_list :: "string list"

text \<open>
  The state the bulk actions work on: the two tables, and the messages that the mail
  server has accepted so far, oldest first.
\<close>

record ('l, 't) database =
  leaves :: "'l leave_scheme list"
  timesheets :: "'t timesheet_scheme list"
  outbox :: "mail list"

text \<open>\<^verbatim>\<open>QuerySet.first()\<close> and \<^verbatim>\<open>QuerySet.last()\<close>: Python's \<^verbatim>\<open>None\<close> when there is no row.\<close>

definition queryset_first :: "'r list \<Rightarrow> 'r option" where
  "queryset_first rows = (case rows of [] \<Rightarrow> None | r # _ \<Rightarrow> Some r)"

definition queryset_last :: "'r list \<Rightarrow> 'r option" where
  "queryset_last rows = (if rows = [] then None else Some (last rows))"

text \<open>
  \<^verbatim>\<open>django.core.mail.send_mail\<close>, which builds an \<^verbatim>\<open>EmailMessage\<close> and calls its \<^verbatim>\<open>send()\<close>.
  Blank addresses do not count as recipients, and a message without recipients is not
  handed to the backend: nothing is sent and nothing is raised. Building the message raises
  \<^verbatim>\<open>BadHeaderError\<close> when the subject, the sender or a recipient holds a line break,
  whatever \<open>fail_silently\<close> is. Whether the mail server then takes the message is not in the
  program's hands: \<open>backend\<close> decides it, from the messages accepted so far and the new
  one. A refused message raises unless \<open>fail_silently\<close> is set.
\<close>

type_synonym backend = "mail list \<Rightarrow> mail \<Rightarrow> bool"

definition multi_line :: "string \<Rightarrow> bool" where
  "multi_line s = (CHR 0x0A \<in> set s \<or> CHR 0x0D \<in> set s)"

definition send_mail ::
  "backend \<Rightarrow> string \<Rightarrow> string \<Rightarrow> string \<Rightarrow> string list \<Rightarrow> bool
    \<Rightarrow> ('l, 't) database \<Rightarrow> error option \<times> ('l, 't) database" where
  "send_mail backend subj msg sender recipients fail_silently db =
     (let m = \<lparr>subject = subj, message = msg, from_email = sender, recipient_list = recipients\<rparr>
      in if filter (\<lambda>address. address \<noteq> []) recipients = [] then (None, db)
         else if multi_line subj \<or> multi_line sender \<or> list_ex multi_line recipients
           then (Some BadHeaderError, db)
         else if backend (outbox db) m then (None, db\<lparr>outbox := outbox db @ [m]\<rparr>)
         else if fail_silently then (None, db)
         else (Some SMTPException, db))"

text \<open>
  \<^verbatim>\<open>LeaveAdmin.send_notification_email\<close> (admin.py, lines 210-218). A statement returns the
  exception it raised, if any, and the state it left. \<^verbatim>\<open>first()\<close> and \<^verbatim>\<open>last()\<close> return
  \<^verbatim>\<open>None\<close> for a leave without dates, and reading \<^verbatim>\<open>starts_at\<close> of \<^verbatim>\<open>None\<close> raises
  \<^verbatim>\<open>AttributeError\<close> before anything is sent.
\<close>

definition send_notification_email ::
  "backend \<Rightarrow> 'l leave_scheme \<Rightarrow> string \<Rightarrow> ('l, 't) database
    \<Rightarrow> error option \<times> ('l, 't) database" where
  "send_notification_email backend leave status_word db =
     (case queryset_first (leavedate_set leave) of
        None \<Rightarrow> (Some AttributeError, db)
      | Some first_date \<Rightarrow>
          (case queryset_last (leavedate_set leave) of
             None \<Rightarrow> (Some AttributeError, db)
           | Some last_date \<Rightarrow>
               send_mail backend
                 (leave_type leave @ '' - '' @ leave.description leave)
                 (''Dear '' @ first_name (leave.user leave) @ ''\<newline>\<newline>your '' @ leave_type leave
                    @ '' from \<newline>'' @ str_date (datetime_date (leavedate.starts_at first_date))
                    @ '' to '' @ str_date (datetime_date (leavedate.ends_at last_date))
                    @ ''\<newline>has been '' @ status_word
                    @ ''.\<newline>\<newline>Kind regards\<newline>An inocent bot'')
                 ''no-reply@inuits.eu''
                 [email (leave.user leave)]
                 False db))"


text \<open>
  A \<^verbatim>\<open>for\<close> loop over rows: the first exception ends it, with the state as the failing
  step left it.
\<close>

fun for_each ::
  "('r \<Rightarrow> 'db \<Rightarrow> error option \<times> 'db) \<Rightarrow> 'r list \<Rightarrow> 'db \<Rightarrow> error option \<times> 'db" where
  "for_each body [] db = (None, db)"
| "for_each body (r # rows) db =
     (case body r db of
        (None, db') \<Rightarrow> for_each body rows db'
      | (Some e, db') \<Rightarrow> (Some e, db'))"

text \<open>
  \<^verbatim>\<open>LeaveAdmin.make_approved\<close> and \<^verbatim>\<open>make_rejected\<close> (admin.py, lines 191-201). The admin
  passes the change list's query set, which carries the list filters in force (\<^verbatim>\<open>status\<close> is
  one of \<^verbatim>\<open>LeaveAdmin.list_filter\<close>), narrowed to the ticked rows. \<^verbatim>\<open>update\<close> runs first; the
  loop then evaluates the query set, on the table as the update left it.
\<close>

definition make_approved ::
  "backend \<Rightarrow> 'l leave_scheme queryset \<Rightarrow> ('l, 't) database
    \<Rightarrow> error option \<times> ('l, 't) database" where
  "make_approved backend queryset db =
     (let db' = db\<lparr>leaves :=
            queryset_update queryset (\<lambda>r. r\<lparr>leave.status := APPROVED\<rparr>) (leaves db)\<rparr>
      in for_each (\<lambda>leave. send_notification_email backend leave ''approved'')
           (queryset_rows queryset (leaves db')) db')"

definition make_rejected ::
  "backend \<Rightarrow> 'l leave_scheme queryset \<Rightarrow> ('l, 't) database
    \<Rightarrow> error option \<times> ('l, 't) database" where
  "make_rejected backend queryset db =
     (let db' = db\<lparr>leaves :=
            queryset_update queryset (\<lambda>r. r\<lparr>leave.status := REJECTED\<rparr>) (leaves db)\<rparr>
      in for_each (\<lambda>leave. send_notification_email backend leave ''rejected'')
           (queryset_rows queryset (leaves db')) db')"

text \<open>\<^verbatim>\<open>TimesheetAdmin.make_closed\<close>, \<^verbatim>\<open>make_active\<close>, \<^verbatim>\<open>make_pending\<close> (admin.py, lines 391-401).\<close>

definition make_closed ::
  "'t timesheet_scheme queryset \<Rightarrow> ('l, 't) database \<Rightarrow> ('l, 't) database" where
  "make_closed queryset db =
     db\<lparr>timesheets :=
       queryset_update queryset (\<lambda>r. r\<lparr>timesheet.status := CLOSED\<rparr>) (timesheets db)\<rparr>"

definition make_active ::
  "'t timesheet_scheme queryset \<Rightarrow> ('l, 't) database \<Rightarrow> ('l, 't) database" where
  "make_active queryset db =
     db\<lparr>timesheets :=
       queryset_update queryset (\<lambda>r. r\<lparr>timesheet.status := ACTIVE\<rparr>) (timesheets db)\<rparr>"

definition make_pending ::
  "'t timesheet_scheme queryset \<Rightarrow> ('l, 't) database \<Rightarrow> ('l, 't) database" where
  "make_pending queryset db =
     db\<lparr>timesheets :=
       queryset_update queryset (\<lambda>r. r\<lparr>timesheet.status := PENDING\<rparr>) (timesheets db)\<rparr>"

text \<open>
  The \<^verbatim>\<open>actions\<close> lists of \<^verbatim>\<open>LeaveAdmin\<close> (lines 233-236) and \<^verbatim>\<open>TimesheetAdmin\<close> (lines
  405-409), and the method of the class that the admin finds under a name.
\<close>

definition LeaveAdmin_actions :: "string list" where
  "LeaveAdmin_actions = [''make_approved'', ''make_rejected'']"

definition TimesheetAdmin_actions :: "string list" where
  "TimesheetAdmin_actions = [''make_closed'', ''make_active'', ''make_pending'']"

definition LeaveAdmin_method ::
  "string \<Rightarrow> (backend \<Rightarrow> 'l leave_scheme queryset \<Rightarrow> ('l, 't) database
               \<Rightarrow> error option \<times> ('l, 't) database) option" where
  "LeaveAdmin_method name =
     (if name = ''make_approved'' then Some make_approved
      else if name = ''make_rejected'' then Some make_rejected
      else None)"

definition TimesheetAdmin_method ::
  "string \<Rightarrow> ('t timesheet_scheme queryset \<Rightarrow> ('l, 't) database \<Rightarrow> ('l, 't) database) option" where
  "TimesheetAdmin_method name =
     (if name = ''make_closed'' then Some make_closed
      else if name = ''make_active'' then Some make_active
      else if name = ''make_pending'' then Some make_pending
      else None)"

section \<open>Performances\<close>

text \<open>
  The columns of an \<^verbatim>\<open>ActivityPerformance\<close> that the parent admin shows; \<open>'v\<close> is the type of
  Python values. A \<^verbatim>\<open>Performance\<close> is modelled by what reading its attribute
  \<^verbatim>\<open>activityperformance\<close> does: it returns the subtype's row, or raises.
\<close>

record 'v activityperformance =
  duration :: 'v
  contract :: 'v
  performance_type :: 'v
  description :: 'v
  contract_role :: 'v

record 'v performance =
  activityperformance :: "error + 'v activityperformance"

text \<open>A cell of the list display: a value of the row, or a text.\<close>

datatype 'v cell = Of 'v | Label string

text \<open>
  Python's three-argument \<^verbatim>\<open>getattr\<close>: the default replaces an \<^verbatim>\<open>AttributeError\<close> (or a
  subclass), any other exception goes on.
\<close>

definition getattr :: "error + 'o \<Rightarrow> 'o option \<Rightarrow> error + 'o option" where
  "getattr access dflt =
     (case access of
        Inr v \<Rightarrow> Inr (Some v)
      | Inl e \<Rightarrow> if is_AttributeError e then Inr dflt else Inl e)"

text \<open>
  The methods of \<^verbatim>\<open>PerformanceParentAdmin\<close> (admin.py, lines 435-486). The bare \<^verbatim>\<open>except\<close>
  turns every exception of the \<^verbatim>\<open>try\<close> block into \<^verbatim>\<open>activity = None\<close>. A model instance is
  true in a condition, \<^verbatim>\<open>None\<close> is false. \<open>ugettext\<close> is the translation function \<^verbatim>\<open>_\<close>. A
  method that ends without \<^verbatim>\<open>return\<close> returns \<^verbatim>\<open>None\<close>.
\<close>

definition PerformanceParentAdmin_duration :: "('v, 'a) performance_scheme \<Rightarrow> 'v option" where
  "PerformanceParentAdmin_duration obj =
     (let activity = (case getattr (activityperformance obj) None of
                        Inl e \<Rightarrow> None | Inr v \<Rightarrow> v)
      in case activity of
           Some a \<Rightarrow> Some (duration a)
         | None \<Rightarrow> None)"

definition PerformanceParentAdmin_contract ::
  "(string \<Rightarrow> string) \<Rightarrow> ('v, 'a) performance_scheme \<Rightarrow> 'v cell" where
  "PerformanceParentAdmin_contract ugettext obj =
     (let activity = (case getattr (activityperformance obj) None of
                        Inl e \<Rightarrow> None | Inr v \<Rightarrow> v)
      in case activity of
           Some a \<Rightarrow> Of (contract a)
         | None \<Rightarrow> Label (ugettext ''Standby''))"

definition PerformanceParentAdmin_performance_type ::
  "(string \<Rightarrow> string) \<Rightarrow> ('v, 'a) performance_scheme \<Rightarrow> 'v cell" where
  "PerformanceParentAdmin_performance_type ugettext obj =
     (let activity = (case getattr (activityperformance obj) None of
                        Inl e \<Rightarrow> None | Inr v \<Rightarrow> v)
      in case activity of
           Some a \<Rightarrow> Of (performance_type a)
         | None \<Rightarrow> Label (ugettext ''Standby''))"

definition PerformanceParentAdmin_description :: "('v, 'a) performance_scheme \<Rightarrow> 'v option" where
  "PerformanceParentAdmin_description obj =
     (let activity = (case getattr (activityperformance obj) None of
                        Inl e \<Rightarrow> None | Inr v \<Rightarrow> v)
      in case activity of
           Some a \<Rightarrow> Some (activityperformance.description a)
         | None \<Rightarrow> None)"

definition PerformanceParentAdmin_contract_role :: "('v, 'a) performance_scheme \<Rightarrow> 'v option" where
  "PerformanceParentAdmin_contract_role obj =
     (let activity = (case getattr (activityperformance obj) None of
                        Inl e \<Rightarrow> None | Inr v \<Rightarrow> v)
      in case activity of
           Some a \<Rightarrow> Some (contract_role a)
         | None \<Rightarrow> None)"

section \<open>The WSGI module\<close>

text \<open>
  \<^verbatim>\<open>os.environ\<close> maps names to values; \<^verbatim>\<open>setdefault\<close> stores a value only under a name
  that has none.
\<close>

type_synonym environ = "string \<rightharpoonup> string"

definition setdefault :: "environ \<Rightarrow> string \<Rightarrow> string \<Rightarrow> environ" where
  "setdefault env k v = (case env k of None \<Rightarrow> env(k \<mapsto> v) | Some old \<Rightarrow> env)"

text \<open>
  wsgi.py, lines 6-7: the environment as the two \<^verbatim>\<open>setdefault\<close> statements leave it.
  \<^verbatim>\<open>get_django_configuration\<close> is declared in \<^verbatim>\<open>ninetofiver.utils\<close>, which is not among the
  sources: it is a parameter, a function of the environment it is called in. Python
  evaluates the argument of the second \<^verbatim>\<open>setdefault\<close> whether or not the variable is set.
\<close>

definition wsgi_environ :: "(environ \<Rightarrow> string) \<Rightarrow> environ \<Rightarrow> environ" where
  "wsgi_environ get_django_configuration env =
     (let env1 = setdefault env ''DJANGO_SETTINGS_MODULE'' ''ninetofiver.settings''
      in setdefault env1 ''DJANGO_CONFIGURATION'' (get_django_configuration env1))"

text \<open>
  wsgi.py, lines 6-10: what running the module leaves behind, the environment and the
  module attribute \<^verbatim>\<open>application\<close>. \<^verbatim>\<open>get_wsgi_application\<close> is the framework's (lines 9-10,
  the import and the call): it loads the settings, and in doing so writes the environment
  (Django sets \<^verbatim>\<open>TZ\<close>). It is a parameter that returns the application and the environment
  it leaves.
\<close>

record 'app wsgi_module =
  environ :: environ
  application :: 'app

definition wsgi ::
  "(environ \<Rightarrow> string) \<Rightarrow> (environ \<Rightarrow> 'app \<times> environ) \<Rightarrow> environ \<Rightarrow> 'app wsgi_module" where
  "wsgi get_django_configuration get_wsgi_application env =
     (case get_wsgi_application (wsgi_environ get_django_configuration env) of
        (app, env') \<Rightarrow> \<lparr>environ = env', application = app\<rparr>)"

section \<open>The status filters\<close>

text \<open>
  The columns of \<^verbatim>\<open>EmploymentContract\<close> and \<^verbatim>\<open>Contract\<close> that the filters read; every other
  column of a row lives in the record's extension. The end date is nullable (the filters
  test it with \<^verbatim>\<open>__isnull\<close>).
\<close>

record employment_contract =
  started_at :: date
  ended_at :: "date option"

record contract =
  starts_at :: date
  ends_at :: "date option"
  active :: bool

text \<open>
  \<^verbatim>\<open>EmploymentContractStatusFilter.queryset\<close> (admin.py, lines 78-87). \<open>today\<close> is what
  \<^verbatim>\<open>date.today()\<close> returns during the request and \<open>val\<close> is \<^verbatim>\<open>self.value()\<close>: the
  \<^verbatim>\<open>status\<close> parameter of the query string, \<open>None\<close> when it is absent. The method has no
  \<^verbatim>\<open>else\<close> branch, so for any other value it returns Python's \<^verbatim>\<open>None\<close>. The two calls of
  \<^verbatim>\<open>date.today()\<close> in the first branch are taken to fall on the same day.
\<close>

definition EmploymentContractStatusFilter_queryset ::
  "date \<Rightarrow> string option \<Rightarrow> 'a employment_contract_scheme queryset
    \<Rightarrow> 'a employment_contract_scheme queryset option" where
  "EmploymentContractStatusFilter_queryset today val qs =
     (if val = Some ''active'' then
        Some (queryset_filter qs
          (\<lambda>r. started_at r \<le> today \<and> (gte (ended_at r) today \<or> isnull (ended_at r))))
      else if val = Some ''ended'' then
        Some (queryset_filter qs (\<lambda>r. lte (ended_at r) today))
      else if val = Some ''future'' then
        Some (queryset_filter qs (\<lambda>r. today \<le> started_at r))
      else None)"

text \<open>\<^verbatim>\<open>ContractStatusFilter.queryset\<close> (admin.py, lines 104-114).\<close>

definition ContractStatusFilter_queryset ::
  "date \<Rightarrow> string option \<Rightarrow> 'a contract_scheme queryset
    \<Rightarrow> 'a contract_scheme queryset option" where
  "ContractStatusFilter_queryset today val qs =
     (if val = Some ''active'' then
        Some (queryset_filter qs
          (\<lambda>r. starts_at r \<le> today \<and> (gte (ends_at r) today \<or> isnull (ends_at r))
                \<and> active r = True))
      else if val = Some ''ended'' then
        Some (queryset_filter qs (\<lambda>r. lte (ends_at r) today \<or> active r = False))
      else if val = Some ''future'' then
        Some (queryset_filter qs (\<lambda>r. today \<le> starts_at r))
      else None)"

text \<open>
  How the admin change list uses a list filter (Django's \<^verbatim>\<open>ChangeList.get_queryset\<close>): the
  query set the filter returns replaces the current one, unless the filter returned
  \<^verbatim>\<open>None\<close>.
\<close>

definition apply_list_filter ::
  "('r queryset \<Rightarrow> 'r queryset option) \<Rightarrow> 'r queryset \<Rightarrow> 'r queryset" where
  "apply_list_filter list_filter qs =
     (case list_filter qs of None \<Rightarrow> qs | Some new_qs \<Rightarrow> new_qs)"

section \<open>Properties of the status filters\<close>

lemma queryset_rows_filter:
  "queryset_rows (queryset_filter qs cond) table = filter cond (queryset_rows qs table)"
  by (induction table) (simp_all add: queryset_rows_def queryset_filter_def)

text \<open>
  Claim C2. With today's date \<open>today\<close>, the employment contract status filter selects: for
  'active', exactly the rows of the incoming query set with \<open>started_at \<le> today\<close> and
  (\<open>ended_at \<ge> today\<close> or \<open>ended_at\<close> null); for 'ended', exactly those with
  \<open>ended_at \<le> today\<close>; for 'future', exactly those with \<open>started_at \<ge> today\<close>. With no
  value selected the method returns \<^verbatim>\<open>None\<close>, which the change list reads as no
  restriction: the query set stays as it was.
\<close>

theorem EmploymentContractStatusFilter_classifies:
  fixes qs :: "'a employment_contract_scheme queryset"
  shows
  "queryset_rows
      (apply_list_filter (EmploymentContractStatusFilter_queryset today (Some ''active'')) qs) table
     = filter (\<lambda>r. started_at r \<le> today
                  \<and> ((\<exists>e. ended_at r = Some e \<and> today \<le> e) \<or> ended_at r = None))
         (queryset_rows qs table)
   \<and> queryset_rows
      (apply_list_filter (EmploymentContractStatusFilter_queryset today (Some ''ended'')) qs) table
     = filter (\<lambda>r. \<exists>e. ended_at r = Some e \<and> e \<le> today) (queryset_rows qs table)
   \<and> queryset_rows
      (apply_list_filter (EmploymentContractStatusFilter_queryset today (Some ''future'')) qs) table
     = filter (\<lambda>r. today \<le> started_at r) (queryset_rows qs table)
   \<and> EmploymentContractStatusFilter_queryset today None qs = None
   \<and> apply_list_filter (EmploymentContractStatusFilter_queryset today None) qs = qs"
proof -
  have g: "\<And>c. gte c today = (\<exists>e. c = Some e \<and> today \<le> e)"
    by (simp add: gte_def split: option.splits)
  have l: "\<And>c. lte c today = (\<exists>e. c = Some e \<and> e \<le> today)"
    by (simp add: lte_def split: option.splits)
  show ?thesis
    by (simp add: EmploymentContractStatusFilter_queryset_def apply_list_filter_def
        queryset_rows_filter g l isnull_def)
qed

theorem EmploymentContractStatusFilter_classifies_witness:
  "queryset_rows
      (apply_list_filter
        (EmploymentContractStatusFilter_queryset (2024, 3, 15) (Some ''active'')) (\<lambda>r. True))
      [\<lparr>started_at = (2024, 1, 1), ended_at = None\<rparr>,
       \<lparr>started_at = (2023, 1, 1), ended_at = Some (2023, 12, 31)\<rparr>,
       \<lparr>started_at = (2024, 6, 1), ended_at = None\<rparr>]
     = [\<lparr>started_at = (2024, 1, 1), ended_at = None\<rparr>]
   \<and> queryset_rows
      (apply_list_filter
        (EmploymentContractStatusFilter_queryset (2024, 3, 15) (Some ''ended'')) (\<lambda>r. True))
      [\<lparr>started_at = (2024, 1, 1), ended_at = None\<rparr>,
       \<lparr>started_at = (2023, 1, 1), ended_at = Some (2023, 12, 31)\<rparr>,
       \<lparr>started_at = (2024, 6, 1), ended_at = None\<rparr>]
     = [\<lparr>started_at = (2023, 1, 1), ended_at = Some (2023, 12, 31)\<rparr>]
   \<and> queryset_rows
      (apply_list_filter
        (EmploymentContractStatusFilter_queryset (2024, 3, 15) (Some ''future'')) (\<lambda>r. True))
      [\<lparr>started_at = (2024, 1, 1), ended_at = None\<rparr>,
       \<lparr>started_at = (2023, 1, 1), ended_at = Some (2023, 12, 31)\<rparr>,
       \<lparr>started_at = (2024, 6, 1), ended_at = None\<rparr>]
     = [\<lparr>started_at = (2024, 6, 1), ended_at = None\<rparr>]"
  using EmploymentContractStatusFilter_classifies
    [of "(2024, 3, 15)" "\<lambda>r. True"
        "[\<lparr>started_at = (2024, 1, 1), ended_at = None\<rparr>,
          \<lparr>started_at = (2023, 1, 1), ended_at = Some (2023, 12, 31)\<rparr>,
          \<lparr>started_at = (2024, 6, 1), ended_at = None\<rparr>]"]
  by (simp add: queryset_rows_def)

text \<open>
  Claim C3, as stated, fails: two contracts with the same start and end dates are classified
  differently when their \<open>active\<close> flags differ. Of the two rows below, which agree on both
  dates, 'active' returns only the first and 'ended' only the second.
\<close>

theorem ContractStatusFilter_active_flag_counterexample:
  "starts_at \<lparr>starts_at = (2024, 1, 1), ends_at = None, active = True\<rparr>
     = starts_at \<lparr>starts_at = (2024, 1, 1), ends_at = None, active = False\<rparr>
   \<and> ends_at \<lparr>starts_at = (2024, 1, 1), ends_at = None, active = True\<rparr>
     = ends_at \<lparr>starts_at = (2024, 1, 1), ends_at = None, active = False\<rparr>
   \<and> queryset_rows
        (apply_list_filter
          (ContractStatusFilter_queryset (2024, 3, 15) (Some ''active'')) (\<lambda>r. True))
        [\<lparr>starts_at = (2024, 1, 1), ends_at = None, active = True\<rparr>,
         \<lparr>starts_at = (2024, 1, 1), ends_at = None, active = False\<rparr>]
     = [\<lparr>starts_at = (2024, 1, 1), ends_at = None, active = True\<rparr>]
   \<and> queryset_rows
        (apply_list_filter
          (ContractStatusFilter_queryset (2024, 3, 15) (Some ''ended'')) (\<lambda>r. True))
        [\<lparr>starts_at = (2024, 1, 1), ends_at = None, active = True\<rparr>,
         \<lparr>starts_at = (2024, 1, 1), ends_at = None, active = False\<rparr>]
     = [\<lparr>starts_at = (2024, 1, 1), ends_at = None, active = False\<rparr>]"
  by (simp add: ContractStatusFilter_queryset_def apply_list_filter_def queryset_rows_def
      queryset_filter_def gte_def lte_def isnull_def)

text \<open>
  Claim C3, amended. Whether the contract status filter returns a row of the incoming query
  set is determined by the row's start date, end date and \<open>active\<close> flag, compared with
  today: 'active' returns exactly the rows that have started, have not ended before today
  (or have no end date) and whose flag is true; 'ended' returns exactly the rows that ended
  today or earlier, and every row whose flag is false; 'future' returns exactly the rows
  that start today or later. So two rows of the incoming query set that agree on the three
  columns are returned by the same selections, whatever their other columns hold.
\<close>

theorem ContractStatusFilter_dates_and_active_flag:
  fixes qs :: "'a contract_scheme queryset"
  shows
  "queryset_rows (apply_list_filter (ContractStatusFilter_queryset today (Some ''active'')) qs) table
     = filter (\<lambda>r. starts_at r \<le> today
                  \<and> ((\<exists>e. ends_at r = Some e \<and> today \<le> e) \<or> ends_at r = None)
                  \<and> active r)
         (queryset_rows qs table)
   \<and> queryset_rows (apply_list_filter (ContractStatusFilter_queryset today (Some ''ended'')) qs) table
     = filter (\<lambda>r. (\<exists>e. ends_at r = Some e \<and> e \<le> today) \<or> \<not> active r)
         (queryset_rows qs table)
   \<and> queryset_rows (apply_list_filter (ContractStatusFilter_queryset today (Some ''future'')) qs) table
     = filter (\<lambda>r. today \<le> starts_at r) (queryset_rows qs table)
   \<and> (\<forall>r1 r2. starts_at r1 = starts_at r2 \<and> ends_at r1 = ends_at r2 \<and> active r1 = active r2
          \<and> qs r1 = qs r2 \<longrightarrow>
        apply_list_filter (ContractStatusFilter_queryset today val) qs r1
          = apply_list_filter (ContractStatusFilter_queryset today val) qs r2)"
proof -
  have g: "\<And>c. gte c today = (\<exists>e. c = Some e \<and> today \<le> e)"
    by (simp add: gte_def split: option.splits)
  have l: "\<And>c. lte c today = (\<exists>e. c = Some e \<and> e \<le> today)"
    by (simp add: lte_def split: option.splits)
  have rows: "queryset_rows (apply_list_filter (ContractStatusFilter_queryset today (Some ''active'')) qs) table
     = filter (\<lambda>r. starts_at r \<le> today
                  \<and> ((\<exists>e. ends_at r = Some e \<and> today \<le> e) \<or> ends_at r = None)
                  \<and> active r)
         (queryset_rows qs table)
   \<and> queryset_rows (apply_list_filter (ContractStatusFilter_queryset today (Some ''ended'')) qs) table
     = filter (\<lambda>r. (\<exists>e. ends_at r = Some e \<and> e \<le> today) \<or> \<not> active r)
         (queryset_rows qs table)
   \<and> queryset_rows (apply_list_filter (ContractStatusFilter_queryset today (Some ''future'')) qs) table
     = filter (\<lambda>r. today \<le> starts_at r) (queryset_rows qs table)"
    by (simp add: ContractStatusFilter_queryset_def apply_list_filter_def
        queryset_rows_filter g l isnull_def)
  have same: "\<forall>r1 r2. starts_at r1 = starts_at r2 \<and> ends_at r1 = ends_at r2 \<and> active r1 = active r2
          \<and> qs r1 = qs r2 \<longrightarrow>
        apply_list_filter (ContractStatusFilter_queryset today val) qs r1
          = apply_list_filter (ContractStatusFilter_queryset today val) qs r2"
    by (simp add: ContractStatusFilter_queryset_def apply_list_filter_def queryset_filter_def)
  from rows have r1: "queryset_rows (apply_list_filter (ContractStatusFilter_queryset today (Some ''active'')) qs) table
     = filter (\<lambda>r. starts_at r \<le> today
                  \<and> ((\<exists>e. ends_at r = Some e \<and> today \<le> e) \<or> ends_at r = None)
                  \<and> active r)
         (queryset_rows qs table)"
    by (rule conjunct1)
  from rows have r2: "queryset_rows (apply_list_filter (ContractStatusFilter_queryset today (Some ''ended'')) qs) table
     = filter (\<lambda>r. (\<exists>e. ends_at r = Some e \<and> e \<le> today) \<or> \<not> active r)
         (queryset_rows qs table)"
    by (rule conjunct1 [OF conjunct2])
  from rows have r3: "queryset_rows (apply_list_filter (ContractStatusFilter_queryset today (Some ''future'')) qs) table
     = filter (\<lambda>r. today \<le> starts_at r) (queryset_rows qs table)"
    by (rule conjunct2 [OF conjunct2])
  show ?thesis by (intro conjI r1 r2 r3 same)
qed

theorem ContractStatusFilter_dates_and_active_flag_witness:
  "queryset_rows
      (apply_list_filter (ContractStatusFilter_queryset (2024, 3, 15) (Some ''active'')) (\<lambda>r. True))
      [\<lparr>starts_at = (2024, 1, 1), ends_at = None, active = True, \<dots> = ''Project''\<rparr>,
       \<lparr>starts_at = (2024, 1, 1), ends_at = None, active = False, \<dots> = ''Support''\<rparr>,
       \<lparr>starts_at = (2024, 6, 1), ends_at = None, active = True, \<dots> = ''Consultancy''\<rparr>]
     = [\<lparr>starts_at = (2024, 1, 1), ends_at = None, active = True, \<dots> = ''Project''\<rparr>]
   \<and> queryset_rows
      (apply_list_filter (ContractStatusFilter_queryset (2024, 3, 15) (Some ''ended'')) (\<lambda>r. True))
      [\<lparr>starts_at = (2024, 1, 1), ends_at = None, active = True, \<dots> = ''Project''\<rparr>,
       \<lparr>starts_at = (2024, 1, 1), ends_at = None, active = False, \<dots> = ''Support''\<rparr>,
       \<lparr>starts_at = (2024, 6, 1), ends_at = None, active = True, \<dots> = ''Consultancy''\<rparr>]
     = [\<lparr>starts_at = (2024, 1, 1), ends_at = None, active = False, \<dots> = ''Support''\<rparr>]
   \<and> queryset_rows
      (apply_list_filter (ContractStatusFilter_queryset (2024, 3, 15) (Some ''future'')) (\<lambda>r. True))
      [\<lparr>starts_at = (2024, 1, 1), ends_at = None, active = True, \<dots> = ''Project''\<rparr>,
       \<lparr>starts_at = (2024, 1, 1), ends_at = None, active = False, \<dots> = ''Support''\<rparr>,
       \<lparr>starts_at = (2024, 6, 1), ends_at = None, active = True, \<dots> = ''Consultancy''\<rparr>]
     = [\<lparr>starts_at = (2024, 6, 1), ends_at = None, active = True, \<dots> = ''Consultancy''\<rparr>]
   \<and> apply_list_filter (ContractStatusFilter_queryset (2024, 3, 15) (Some ''active'')) (\<lambda>r. True)
        \<lparr>starts_at = (2024, 1, 1), ends_at = None, active = True, \<dots> = ''Project''\<rparr>
     = apply_list_filter (ContractStatusFilter_queryset (2024, 3, 15) (Some ''active'')) (\<lambda>r. True)
        \<lparr>starts_at = (2024, 1, 1), ends_at = None, active = True, \<dots> = ''Other''\<rparr>"
proof -
  let ?t = "[\<lparr>starts_at = (2024, 1, 1), ends_at = None, active = True, \<dots> = ''Project''\<rparr>,
       \<lparr>starts_at = (2024, 1, 1), ends_at = None, active = False, \<dots> = ''Support''\<rparr>,
       \<lparr>starts_at = (2024, 6, 1), ends_at = None, active = True, \<dots> = ''Consultancy''\<rparr>]"
  note t = ContractStatusFilter_dates_and_active_flag
    [of "(2024, 3, 15)" "\<lambda>r :: string contract_scheme. True" ?t "Some ''active''"]
  note tr = t [THEN conjunct1]
  note te = t [THEN conjunct2, THEN conjunct1]
  note tf = t [THEN conjunct2, THEN conjunct2, THEN conjunct1]
  note ts = t [THEN conjunct2, THEN conjunct2, THEN conjunct2, rule_format,
    of "\<lparr>starts_at = (2024, 1, 1), ends_at = None, active = True, \<dots> = ''Project''\<rparr>"
       "\<lparr>starts_at = (2024, 1, 1), ends_at = None, active = True, \<dots> = ''Other''\<rparr>"]
  from tr te tf have rows: "queryset_rows
      (apply_list_filter (ContractStatusFilter_queryset (2024, 3, 15) (Some ''active'')) (\<lambda>r. True)) ?t
     = [\<lparr>starts_at = (2024, 1, 1), ends_at = None, active = True, \<dots> = ''Project''\<rparr>]
   \<and> queryset_rows
      (apply_list_filter (ContractStatusFilter_queryset (2024, 3, 15) (Some ''ended'')) (\<lambda>r. True)) ?t
     = [\<lparr>starts_at = (2024, 1, 1), ends_at = None, active = False, \<dots> = ''Support''\<rparr>]
   \<and> queryset_rows
      (apply_list_filter (ContractStatusFilter_queryset (2024, 3, 15) (Some ''future'')) (\<lambda>r. True)) ?t
     = [\<lparr>starts_at = (2024, 6, 1), ends_at = None, active = True, \<dots> = ''Consultancy''\<rparr>]"
    by (simp add: queryset_rows_def)
  from ts have "apply_list_filter (ContractStatusFilter_queryset (2024, 3, 15) (Some ''active'')) (\<lambda>r. True)
        \<lparr>starts_at = (2024, 1, 1), ends_at = None, active = True, \<dots> = ''Project''\<rparr>
     = apply_list_filter (ContractStatusFilter_queryset (2024, 3, 15) (Some ''active'')) (\<lambda>r. True)
        \<lparr>starts_at = (2024, 1, 1), ends_at = None, active = True, \<dots> = ''Other''\<rparr>"
    by simp
  with rows show ?thesis by simp
qed

text \<open>
  Claim C10. The three selections are not mutually exclusive. An employment contract that
  ended today and started today or earlier is returned by 'active' and by 'ended'; one that
  starts today (and has no end date, or one not before today) is returned by 'active' and
  by 'future'. The same holds for the contract status filter on rows whose \<open>active\<close> flag
  is true. Such rows exist.
\<close>

theorem status_selections_overlap:
  fixes e :: "'a employment_contract_scheme" and c :: "'b contract_scheme"
  shows
  "(qs e \<and> ended_at e = Some today \<and> started_at e \<le> today \<longrightarrow>
      apply_list_filter (EmploymentContractStatusFilter_queryset today (Some ''active'')) qs e
    \<and> apply_list_filter (EmploymentContractStatusFilter_queryset today (Some ''ended'')) qs e)
   \<and> (qs e \<and> started_at e = today
        \<and> (ended_at e = None \<or> (\<exists>d. ended_at e = Some d \<and> today \<le> d)) \<longrightarrow>
      apply_list_filter (EmploymentContractStatusFilter_queryset today (Some ''active'')) qs e
    \<and> apply_list_filter (EmploymentContractStatusFilter_queryset today (Some ''future'')) qs e)
   \<and> (qs' c \<and> active c \<and> ends_at c = Some today \<and> starts_at c \<le> today \<longrightarrow>
      apply_list_filter (ContractStatusFilter_queryset today (Some ''active'')) qs' c
    \<and> apply_list_filter (ContractStatusFilter_queryset today (Some ''ended'')) qs' c)
   \<and> (qs' c \<and> active c \<and> starts_at c = today
        \<and> (ends_at c = None \<or> (\<exists>d. ends_at c = Some d \<and> today \<le> d)) \<longrightarrow>
      apply_list_filter (ContractStatusFilter_queryset today (Some ''active'')) qs' c
    \<and> apply_list_filter (ContractStatusFilter_queryset today (Some ''future'')) qs' c)
   \<and> (\<exists>x :: employment_contract. ended_at x = Some today \<and> started_at x \<le> today
        \<and> apply_list_filter
            (EmploymentContractStatusFilter_queryset today (Some ''active'')) (\<lambda>r. True) x
        \<and> apply_list_filter
            (EmploymentContractStatusFilter_queryset today (Some ''ended'')) (\<lambda>r. True) x)
   \<and> (\<exists>x :: employment_contract. started_at x = today
        \<and> apply_list_filter
            (EmploymentContractStatusFilter_queryset today (Some ''active'')) (\<lambda>r. True) x
        \<and> apply_list_filter
            (EmploymentContractStatusFilter_queryset today (Some ''future'')) (\<lambda>r. True) x)"
proof -
  let ?x = "\<lparr>started_at = today, ended_at = Some today\<rparr>"
  have x: "ended_at ?x = Some today \<and> started_at ?x \<le> today \<and> started_at ?x = today
     \<and> apply_list_filter
          (EmploymentContractStatusFilter_queryset today (Some ''active'')) (\<lambda>r. True) ?x
     \<and> apply_list_filter
          (EmploymentContractStatusFilter_queryset today (Some ''ended'')) (\<lambda>r. True) ?x
     \<and> apply_list_filter
          (EmploymentContractStatusFilter_queryset today (Some ''future'')) (\<lambda>r. True) ?x"
    by (simp add: EmploymentContractStatusFilter_queryset_def apply_list_filter_def
        queryset_filter_def gte_def lte_def)
  have general: "(qs e \<and> ended_at e = Some today \<and> started_at e \<le> today \<longrightarrow>
      apply_list_filter (EmploymentContractStatusFilter_queryset today (Some ''active'')) qs e
    \<and> apply_list_filter (EmploymentContractStatusFilter_queryset today (Some ''ended'')) qs e)
   \<and> (qs e \<and> started_at e = today
        \<and> (ended_at e = None \<or> (\<exists>d. ended_at e = Some d \<and> today \<le> d)) \<longrightarrow>
      apply_list_filter (EmploymentContractStatusFilter_queryset today (Some ''active'')) qs e
    \<and> apply_list_filter (EmploymentContractStatusFilter_queryset today (Some ''future'')) qs e)
   \<and> (qs' c \<and> active c \<and> ends_at c = Some today \<and> starts_at c \<le> today \<longrightarrow>
      apply_list_filter (ContractStatusFilter_queryset today (Some ''active'')) qs' c
    \<and> apply_list_filter (ContractStatusFilter_queryset today (Some ''ended'')) qs' c)
   \<and> (qs' c \<and> active c \<and> starts_at c = today
        \<and> (ends_at c = None \<or> (\<exists>d. ends_at c = Some d \<and> today \<le> d)) \<longrightarrow>
      apply_list_filter (ContractStatusFilter_queryset today (Some ''active'')) qs' c
    \<and> apply_list_filter (ContractStatusFilter_queryset today (Some ''future'')) qs' c)"
    by (auto simp add: EmploymentContractStatusFilter_queryset_def
        ContractStatusFilter_queryset_def apply_list_filter_def queryset_filter_def
        gte_def lte_def isnull_def)
  from x have "\<exists>x :: employment_contract. ended_at x = Some today \<and> started_at x \<le> today
        \<and> apply_list_filter
            (EmploymentContractStatusFilter_queryset today (Some ''active'')) (\<lambda>r. True) x
        \<and> apply_list_filter
            (EmploymentContractStatusFilter_queryset today (Some ''ended'')) (\<lambda>r. True) x"
    by blast
  moreover from x have "\<exists>x :: employment_contract. started_at x = today
        \<and> apply_list_filter
            (EmploymentContractStatusFilter_queryset today (Some ''active'')) (\<lambda>r. True) x
        \<and> apply_list_filter
            (EmploymentContractStatusFilter_queryset today (Some ''future'')) (\<lambda>r. True) x"
    by blast
  ultimately show ?thesis using general by blast
qed

theorem status_selections_overlap_witness:
  "apply_list_filter (EmploymentContractStatusFilter_queryset (2024, 3, 15) (Some ''active''))
      (\<lambda>r. True) \<lparr>started_at = (2023, 9, 1), ended_at = Some (2024, 3, 15)\<rparr>
   \<and> apply_list_filter (EmploymentContractStatusFilter_queryset (2024, 3, 15) (Some ''ended''))
      (\<lambda>r. True) \<lparr>started_at = (2023, 9, 1), ended_at = Some (2024, 3, 15)\<rparr>
   \<and> apply_list_filter (EmploymentContractStatusFilter_queryset (2024, 3, 15) (Some ''active''))
      (\<lambda>r. True) \<lparr>started_at = (2024, 3, 15), ended_at = None\<rparr>
   \<and> apply_list_filter (EmploymentContractStatusFilter_queryset (2024, 3, 15) (Some ''future''))
      (\<lambda>r. True) \<lparr>started_at = (2024, 3, 15), ended_at = None\<rparr>
   \<and> apply_list_filter (ContractStatusFilter_queryset (2024, 3, 15) (Some ''active''))
      (\<lambda>r. True) \<lparr>starts_at = (2023, 9, 1), ends_at = Some (2024, 3, 15), active = True\<rparr>
   \<and> apply_list_filter (ContractStatusFilter_queryset (2024, 3, 15) (Some ''ended''))
      (\<lambda>r. True) \<lparr>starts_at = (2023, 9, 1), ends_at = Some (2024, 3, 15), active = True\<rparr>
   \<and> apply_list_filter (ContractStatusFilter_queryset (2024, 3, 15) (Some ''active''))
      (\<lambda>r. True) \<lparr>starts_at = (2024, 3, 15), ends_at = None, active = True\<rparr>
   \<and> apply_list_filter (ContractStatusFilter_queryset (2024, 3, 15) (Some ''future''))
      (\<lambda>r. True) \<lparr>starts_at = (2024, 3, 15), ends_at = None, active = True\<rparr>"
proof -
  have a: "apply_list_filter (EmploymentContractStatusFilter_queryset (2024, 3, 15) (Some ''active''))
      (\<lambda>r. True) \<lparr>started_at = (2023, 9, 1), ended_at = Some (2024, 3, 15)\<rparr>
   \<and> apply_list_filter (EmploymentContractStatusFilter_queryset (2024, 3, 15) (Some ''ended''))
      (\<lambda>r. True) \<lparr>started_at = (2023, 9, 1), ended_at = Some (2024, 3, 15)\<rparr>
   \<and> apply_list_filter (ContractStatusFilter_queryset (2024, 3, 15) (Some ''active''))
      (\<lambda>r. True) \<lparr>starts_at = (2023, 9, 1), ends_at = Some (2024, 3, 15), active = True\<rparr>
   \<and> apply_list_filter (ContractStatusFilter_queryset (2024, 3, 15) (Some ''ended''))
      (\<lambda>r. True) \<lparr>starts_at = (2023, 9, 1), ends_at = Some (2024, 3, 15), active = True\<rparr>"
    using status_selections_overlap
      [of "\<lambda>r. True" "\<lparr>started_at = (2023, 9, 1), ended_at = Some (2024, 3, 15)\<rparr>"
          "(2024, 3, 15)" "\<lambda>r. True"
          "\<lparr>starts_at = (2023, 9, 1), ends_at = Some (2024, 3, 15), active = True\<rparr>"]
    by simp
  have b: "apply_list_filter (EmploymentContractStatusFilter_queryset (2024, 3, 15) (Some ''active''))
      (\<lambda>r. True) \<lparr>started_at = (2024, 3, 15), ended_at = None\<rparr>
   \<and> apply_list_filter (EmploymentContractStatusFilter_queryset (2024, 3, 15) (Some ''future''))
      (\<lambda>r. True) \<lparr>started_at = (2024, 3, 15), ended_at = None\<rparr>
   \<and> apply_list_filter (ContractStatusFilter_queryset (2024, 3, 15) (Some ''active''))
      (\<lambda>r. True) \<lparr>starts_at = (2024, 3, 15), ends_at = None, active = True\<rparr>
   \<and> apply_list_filter (ContractStatusFilter_queryset (2024, 3, 15) (Some ''future''))
      (\<lambda>r. True) \<lparr>starts_at = (2024, 3, 15), ends_at = None, active = True\<rparr>"
    using status_selections_overlap
      [of "\<lambda>r. True" "\<lparr>started_at = (2024, 3, 15), ended_at = None\<rparr>"
          "(2024, 3, 15)" "\<lambda>r. True"
          "\<lparr>starts_at = (2024, 3, 15), ends_at = None, active = True\<rparr>"]
    by simp
  from a b show ?thesis by simp
qed

section \<open>Properties of the leave actions\<close>

lemma queryset_update_length: "length (queryset_update qs f table) = length table"
  by (simp add: queryset_update_def)

lemma queryset_update_nth:
  "i < length table \<Longrightarrow>
     queryset_update qs f table ! i = (if qs (table ! i) then f (table ! i) else table ! i)"
  by (simp add: queryset_update_def)








text \<open>
  Claim C1. The code breaks the claim in two ways. The loop iterates the query set after the
  update: on a change list filtered on \<^verbatim>\<open>status\<close>, the leaves just updated no longer match, the
  loop finds no row and no message is sent, although the selected leave has dates, its
  user an address and the mail server accepts everything (first run below). And
  \<^verbatim>\<open>send_notification_email\<close> reads \<^verbatim>\<open>starts_at\<close> of \<^verbatim>\<open>leavedate_set.first()\<close> unguarded: a
  selected leave without dates raises \<^verbatim>\<open>AttributeError\<close>, so that neither it nor the leave
  after it gets a message (second run). In both runs every selected leave is approved.
\<close>

theorem selected_leaves_without_mail:
  "make_approved (\<lambda>box m. True) (\<lambda>r. leave.status r = LEAVE_STATUS ''pending'')
     \<lparr>leaves =
        [\<lparr>leave.user = \<lparr>first_name = ''Bob'', email = ''bob@example.org''\<rparr>,
          leave_type = ''Vacation'', leave.description = ''Hiking'',
          leave.status = LEAVE_STATUS ''pending'',
          leavedate_set = [\<lparr>leavedate.starts_at = ((2024, 2, 5), 9, 0, 0),
                            leavedate.ends_at = ((2024, 2, 5), 17, 0, 0)\<rparr>]\<rparr>],
      timesheets = [] :: timesheet list, outbox = []\<rparr>
   = (None,
      \<lparr>leaves =
        [\<lparr>leave.user = \<lparr>first_name = ''Bob'', email = ''bob@example.org''\<rparr>,
          leave_type = ''Vacation'', leave.description = ''Hiking'',
          leave.status = APPROVED,
          leavedate_set = [\<lparr>leavedate.starts_at = ((2024, 2, 5), 9, 0, 0),
                            leavedate.ends_at = ((2024, 2, 5), 17, 0, 0)\<rparr>]\<rparr>],
      timesheets = [], outbox = []\<rparr>)
   \<and> make_approved (\<lambda>box m. True) (\<lambda>r. True)
     \<lparr>leaves =
        [\<lparr>leave.user = \<lparr>first_name = ''Ann'', email = ''ann@example.org''\<rparr>,
          leave_type = ''Vacation'', leave.description = ''Skiing'',
          leave.status = LEAVE_STATUS ''pending'', leavedate_set = []\<rparr>,
         \<lparr>leave.user = \<lparr>first_name = ''Bob'', email = ''bob@example.org''\<rparr>,
          leave_type = ''Vacation'', leave.description = ''Hiking'',
          leave.status = LEAVE_STATUS ''pending'',
          leavedate_set = [\<lparr>leavedate.starts_at = ((2024, 2, 5), 9, 0, 0),
                            leavedate.ends_at = ((2024, 2, 5), 17, 0, 0)\<rparr>]\<rparr>],
      timesheets = [] :: timesheet list, outbox = []\<rparr>
   = (Some AttributeError,
      \<lparr>leaves =
        [\<lparr>leave.user = \<lparr>first_name = ''Ann'', email = ''ann@example.org''\<rparr>,
          leave_type = ''Vacation'', leave.description = ''Skiing'',
          leave.status = APPROVED, leavedate_set = []\<rparr>,
         \<lparr>leave.user = \<lparr>first_name = ''Bob'', email = ''bob@example.org''\<rparr>,
          leave_type = ''Vacation'', leave.description = ''Hiking'',
          leave.status = APPROVED,
          leavedate_set = [\<lparr>leavedate.starts_at = ((2024, 2, 5), 9, 0, 0),
                            leavedate.ends_at = ((2024, 2, 5), 17, 0, 0)\<rparr>]\<rparr>],
      timesheets = [], outbox = []\<rparr>)"
  by (simp add: make_approved_def queryset_update_def queryset_rows_def
      send_notification_email_def queryset_first_def)



text \<open>
  Claim C9. The code breaks the claim on a change list filtered on \<^verbatim>\<open>status\<close>. The loop
  iterates the query set after the update, when the leave without dates no longer matches:
  it is approved (rejected), the loop finds no row, no message is built, and the action
  returns normally instead of raising.
\<close>

theorem status_filtered_leave_without_dates_returns:
  "make_approved (\<lambda>box m. True) (\<lambda>r. leave.status r = LEAVE_STATUS ''pending'')
     \<lparr>leaves =
        [\<lparr>leave.user = \<lparr>first_name = ''Ann'', email = ''ann@example.org''\<rparr>,
          leave_type = ''Vacation'', leave.description = ''Skiing'',
          leave.status = LEAVE_STATUS ''pending'', leavedate_set = []\<rparr>],
      timesheets = [] :: timesheet list, outbox = []\<rparr>
   = (None,
      \<lparr>leaves =
        [\<lparr>leave.user = \<lparr>first_name = ''Ann'', email = ''ann@example.org''\<rparr>,
          leave_type = ''Vacation'', leave.description = ''Skiing'',
          leave.status = APPROVED, leavedate_set = []\<rparr>],
      timesheets = [], outbox = []\<rparr>)
   \<and> make_rejected (\<lambda>box m. True) (\<lambda>r. leave.status r = LEAVE_STATUS ''pending'')
     \<lparr>leaves =
        [\<lparr>leave.user = \<lparr>first_name = ''Ann'', email = ''ann@example.org''\<rparr>,
          leave_type = ''Vacation'', leave.description = ''Skiing'',
          leave.status = LEAVE_STATUS ''pending'', leavedate_set = []\<rparr>],
      timesheets = [] :: timesheet list, outbox = []\<rparr>
   = (None,
      \<lparr>leaves =
        [\<lparr>leave.user = \<lparr>first_name = ''Ann'', email = ''ann@example.org''\<rparr>,
          leave_type = ''Vacation'', leave.description = ''Skiing'',
          leave.status = REJECTED, leavedate_set = []\<rparr>],
      timesheets = [], outbox = []\<rparr>)"
  by (simp add: make_approved_def make_rejected_def queryset_update_def queryset_rows_def)

section \<open>Properties of the timesheet actions\<close>

lemma make_closed_status:
  "i < length (timesheets db) \<Longrightarrow> queryset (timesheets db ! i) \<Longrightarrow>
     timesheet.status (timesheets (make_closed queryset db) ! i) = CLOSED"
  by (simp add: make_closed_def queryset_update_nth)

lemma make_active_status:
  "i < length (timesheets db) \<Longrightarrow> queryset (timesheets db ! i) \<Longrightarrow>
     timesheet.status (timesheets (make_active queryset db) ! i) = ACTIVE"
  by (simp add: make_active_def queryset_update_nth)

lemma make_pending_status:
  "i < length (timesheets db) \<Longrightarrow> queryset (timesheets db ! i) \<Longrightarrow>
     timesheet.status (timesheets (make_pending queryset db) ! i) = PENDING"
  by (simp add: make_pending_def queryset_update_nth)

lemma TimesheetAdmin_method_cases:
  "TimesheetAdmin_method name = Some act \<Longrightarrow>
     act = make_closed \<or> act = make_active \<or> act = make_pending"
  by (simp add: TimesheetAdmin_method_def split: if_splits)

lemma assigned_status_unique:
  fixes act :: "timesheet queryset \<Rightarrow> (unit, unit) database \<Rightarrow> (unit, unit) database"
  assumes "\<forall>queryset db. \<forall>i < length (timesheets db). queryset (timesheets db ! i) \<longrightarrow>
             timesheet.status (timesheets (act queryset db) ! i) = s"
    and "\<forall>queryset db. \<forall>i < length (timesheets db). queryset (timesheets db ! i) \<longrightarrow>
             timesheet.status (timesheets (act queryset db) ! i) = s'"
  shows "s = s'"
proof -
  let ?db = "\<lparr>leaves = [] :: leave list,
      timesheets = [\<lparr>timesheet.user = \<lparr>first_name = [], email = []\<rparr>,
                     month = 1, year = 2024, timesheet.status = ACTIVE\<rparr>],
      outbox = []\<rparr>"
  have "timesheet.status (timesheets (act (\<lambda>r. True) ?db) ! 0) = s"
    by (rule assms(1) [rule_format, where queryset = "\<lambda>r. True" and db = ?db and i = 0]) simp_all
  moreover have "timesheet.status (timesheets (act (\<lambda>r. True) ?db) ! 0) = s'"
    by (rule assms(2) [rule_format, where queryset = "\<lambda>r. True" and db = ?db and i = 0]) simp_all
  ultimately show ?thesis by simp
qed

text \<open>
  Claim C4, as stated, fails: \<^verbatim>\<open>TimesheetAdmin\<close> has a third action, \<^verbatim>\<open>make_pending\<close>, which
  assigns \<open>PENDING\<close>, a status that is neither \<open>ACTIVE\<close> nor \<open>CLOSED\<close>; with the two actions of
  \<^verbatim>\<open>LeaveAdmin\<close> that makes five bulk actions.
\<close>

theorem make_pending_counterexample:
  "''make_pending'' \<in> set TimesheetAdmin_actions
   \<and> TimesheetAdmin_method ''make_pending''
       = Some (make_pending :: timesheet queryset \<Rightarrow> (unit, unit) database \<Rightarrow> (unit, unit) database)
   \<and> make_pending (\<lambda>r. True)
        \<lparr>leaves = [] :: leave list,
         timesheets = [\<lparr>timesheet.user = \<lparr>first_name = ''Ann'', email = ''ann@example.org''\<rparr>,
                        month = 2, year = 2024, timesheet.status = ACTIVE\<rparr>],
         outbox = []\<rparr>
       = \<lparr>leaves = [],
          timesheets = [\<lparr>timesheet.user = \<lparr>first_name = ''Ann'', email = ''ann@example.org''\<rparr>,
                        month = 2, year = 2024, timesheet.status = PENDING\<rparr>],
          outbox = []\<rparr>
   \<and> PENDING \<noteq> ACTIVE \<and> PENDING \<noteq> CLOSED
   \<and> length (LeaveAdmin_actions @ TimesheetAdmin_actions) = 5"
  by (simp add: TimesheetAdmin_actions_def LeaveAdmin_actions_def TimesheetAdmin_method_def
      make_pending_def queryset_update_def)

text \<open>
  Claim C4, amended. \<^verbatim>\<open>LeaveAdmin\<close> registers two bulk actions, \<^verbatim>\<open>make_approved\<close> and
  \<^verbatim>\<open>make_rejected\<close>, and \<^verbatim>\<open>TimesheetAdmin\<close> three, \<^verbatim>\<open>make_closed\<close>, \<^verbatim>\<open>make_active\<close> and
  \<^verbatim>\<open>make_pending\<close>, five names in all. Each timesheet action gives every selected
  timesheet its status, \<open>CLOSED\<close>, \<open>ACTIVE\<close> and \<open>PENDING\<close> in this order, whatever the
  selection and the table; so the statuses that a registered timesheet action assigns to
  the timesheets it is run on are exactly these three.
\<close>

theorem bulk_actions_and_assigned_statuses:
  "map LeaveAdmin_method LeaveAdmin_actions
     = [Some (make_approved :: backend \<Rightarrow> leave queryset \<Rightarrow> (unit, unit) database
                                  \<Rightarrow> error option \<times> (unit, unit) database),
        Some make_rejected]
   \<and> map TimesheetAdmin_method TimesheetAdmin_actions
     = [Some (make_closed :: timesheet queryset \<Rightarrow> (unit, unit) database \<Rightarrow> (unit, unit) database),
        Some make_active, Some make_pending]
   \<and> distinct (LeaveAdmin_actions @ TimesheetAdmin_actions)
   \<and> (\<forall>(queryset :: timesheet queryset) (db :: (unit, unit) database).
        \<forall>i < length (timesheets db). queryset (timesheets db ! i) \<longrightarrow>
          timesheet.status (timesheets (make_closed queryset db) ! i) = CLOSED
        \<and> timesheet.status (timesheets (make_active queryset db) ! i) = ACTIVE
        \<and> timesheet.status (timesheets (make_pending queryset db) ! i) = PENDING)
   \<and> {s. \<exists>name \<in> set TimesheetAdmin_actions.
          \<exists>act :: timesheet queryset \<Rightarrow> (unit, unit) database \<Rightarrow> (unit, unit) database.
            TimesheetAdmin_method name = Some act
            \<and> (\<forall>queryset db. \<forall>i < length (timesheets db). queryset (timesheets db ! i) \<longrightarrow>
                  timesheet.status (timesheets (act queryset db) ! i) = s)}
     = {CLOSED, ACTIVE, PENDING}"
proof -
  let ?assigns = "\<lambda>(act :: timesheet queryset \<Rightarrow> (unit, unit) database \<Rightarrow> (unit, unit) database) s.
     \<forall>queryset db. \<forall>i < length (timesheets db). queryset (timesheets db ! i) \<longrightarrow>
        timesheet.status (timesheets (act queryset db) ! i) = s"
  let ?S = "{s. \<exists>name \<in> set TimesheetAdmin_actions.
          \<exists>act :: timesheet queryset \<Rightarrow> (unit, unit) database \<Rightarrow> (unit, unit) database.
            TimesheetAdmin_method name = Some act \<and> ?assigns act s}"
  have c: "?assigns make_closed CLOSED" by (simp add: make_closed_status)
  have a: "?assigns make_active ACTIVE" by (simp add: make_active_status)
  have p: "?assigns make_pending PENDING" by (simp add: make_pending_status)
  have l: "map LeaveAdmin_method LeaveAdmin_actions
     = [Some (make_approved :: backend \<Rightarrow> leave queryset \<Rightarrow> (unit, unit) database
                                  \<Rightarrow> error option \<times> (unit, unit) database),
        Some make_rejected]"
    by (simp add: LeaveAdmin_actions_def LeaveAdmin_method_def)
  have t: "map TimesheetAdmin_method TimesheetAdmin_actions
     = [Some (make_closed :: timesheet queryset \<Rightarrow> (unit, unit) database \<Rightarrow> (unit, unit) database),
        Some make_active, Some make_pending]"
    by (simp add: TimesheetAdmin_actions_def TimesheetAdmin_method_def)
  have d: "distinct (LeaveAdmin_actions @ TimesheetAdmin_actions)"
    by (simp add: LeaveAdmin_actions_def TimesheetAdmin_actions_def)
  have each: "\<forall>(queryset :: timesheet queryset) (db :: (unit, unit) database).
        \<forall>i < length (timesheets db). queryset (timesheets db ! i) \<longrightarrow>
          timesheet.status (timesheets (make_closed queryset db) ! i) = CLOSED
        \<and> timesheet.status (timesheets (make_active queryset db) ! i) = ACTIVE
        \<and> timesheet.status (timesheets (make_pending queryset db) ! i) = PENDING"
    by (simp add: make_closed_status make_active_status make_pending_status)
  have sub: "s \<in> {CLOSED, ACTIVE, PENDING}" if "s \<in> ?S" for s
  proof -
    from that obtain name
      and act :: "timesheet queryset \<Rightarrow> (unit, unit) database \<Rightarrow> (unit, unit) database"
      where m: "TimesheetAdmin_method name = Some act" and s: "?assigns act s"
      by (elim CollectE bexE exE conjE)
    from TimesheetAdmin_method_cases [OF m]
    consider "act = make_closed" | "act = make_active" | "act = make_pending" by blast
    then show ?thesis
    proof cases
      case 1
      with s have "?assigns make_closed s" by simp
      from assigned_status_unique [OF this c] show ?thesis by simp
    next
      case 2
      with s have "?assigns make_active s" by simp
      from assigned_status_unique [OF this a] show ?thesis by simp
    next
      case 3
      with s have "?assigns make_pending s" by simp
      from assigned_status_unique [OF this p] show ?thesis by simp
    qed
  qed
  have ex: "s \<in> ?S"
    if "name \<in> set TimesheetAdmin_actions" and "TimesheetAdmin_method name = Some act"
      and "?assigns act s"
    for name s
      and act :: "timesheet queryset \<Rightarrow> (unit, unit) database \<Rightarrow> (unit, unit) database"
    using that by (intro CollectI bexI [of _ name] exI [of _ act] conjI)
  have c': "CLOSED \<in> ?S"
    by (rule ex [of "''make_closed''" make_closed, OF _ _ c])
       (simp_all add: TimesheetAdmin_actions_def TimesheetAdmin_method_def)
  have a': "ACTIVE \<in> ?S"
    by (rule ex [of "''make_active''" make_active, OF _ _ a])
       (simp_all add: TimesheetAdmin_actions_def TimesheetAdmin_method_def)
  have p': "PENDING \<in> ?S"
    by (rule ex [of "''make_pending''" make_pending, OF _ _ p])
       (simp_all add: TimesheetAdmin_actions_def TimesheetAdmin_method_def)
  have S: "?S = {CLOSED, ACTIVE, PENDING}"
  proof (rule set_eqI, rule iffI)
    fix s assume "s \<in> ?S" then show "s \<in> {CLOSED, ACTIVE, PENDING}" by (rule sub)
  next
    fix s :: timesheet_status assume "s \<in> {CLOSED, ACTIVE, PENDING}"
    then consider "s = CLOSED" | "s = ACTIVE" | "s = PENDING" by blast
    then show "s \<in> ?S"
    proof cases
      case 1
      show ?thesis unfolding 1 by (rule c')
    next
      case 2
      show ?thesis unfolding 2 by (rule a')
    next
      case 3
      show ?thesis unfolding 3 by (rule p')
    qed
  qed
  show ?thesis
    apply (rule conjI, rule l)
    apply (rule conjI, rule t)
    apply (rule conjI, rule d)
    apply (rule conjI, rule each)
    apply (rule S)
    done
qed

theorem bulk_actions_and_assigned_statuses_witness:
  "timesheet.status
     (timesheets
        (make_pending (\<lambda>r. month r = 2)
           \<lparr>leaves = [] :: leave list,
            timesheets = [\<lparr>timesheet.user = \<lparr>first_name = ''Ann'', email = ''ann@example.org''\<rparr>,
                           month = 2, year = 2024, timesheet.status = ACTIVE\<rparr>],
            outbox = []\<rparr>) ! 0) = PENDING
   \<and> timesheet.status
     (timesheets
        (make_closed (\<lambda>r. month r = 2)
           \<lparr>leaves = [] :: leave list,
            timesheets = [\<lparr>timesheet.user = \<lparr>first_name = ''Ann'', email = ''ann@example.org''\<rparr>,
                           month = 2, year = 2024, timesheet.status = ACTIVE\<rparr>],
            outbox = []\<rparr>) ! 0) = CLOSED
   \<and> length LeaveAdmin_actions = 2 \<and> length TimesheetAdmin_actions = 3"
proof -
  let ?db = "\<lparr>leaves = [] :: leave list,
            timesheets = [\<lparr>timesheet.user = \<lparr>first_name = ''Ann'', email = ''ann@example.org''\<rparr>,
                           month = 2, year = 2024, timesheet.status = ACTIVE\<rparr>],
            outbox = []\<rparr>"
  let ?q = "\<lambda>r :: timesheet. month r = 2"
  note each = bulk_actions_and_assigned_statuses
    [THEN conjunct2, THEN conjunct2, THEN conjunct2, THEN conjunct1, rule_format,
      where queryset = ?q and db = ?db and i = 0]
  have "timesheet.status (timesheets (make_closed ?q ?db) ! 0) = CLOSED
        \<and> timesheet.status (timesheets (make_active ?q ?db) ! 0) = ACTIVE
        \<and> timesheet.status (timesheets (make_pending ?q ?db) ! 0) = PENDING"
    by (rule each) simp_all
  moreover have "length LeaveAdmin_actions = 2 \<and> length TimesheetAdmin_actions = 3"
    by (simp add: LeaveAdmin_actions_def TimesheetAdmin_actions_def)
  ultimately show ?thesis by simp
qed

text \<open>
  Claim C5. Each timesheet bulk action changes the status column of the selected timesheets
  and nothing else: a selected row is the old row with the new status, a row outside the
  selection is the old row, the table keeps its length and order, the leaves are untouched
  and no message is sent.
\<close>

theorem timesheet_actions_frame:
  fixes db :: "('l, 't) database"
  assumes "(act, st) = (make_closed, CLOSED) \<or> (act, st) = (make_active, ACTIVE)
             \<or> (act, st) = (make_pending, PENDING)"
  shows "length (timesheets (act queryset db)) = length (timesheets db)
    \<and> (\<forall>i < length (timesheets db).
          (queryset (timesheets db ! i) \<longrightarrow>
             timesheets (act queryset db) ! i = (timesheets db ! i)\<lparr>timesheet.status := st\<rparr>)
        \<and> (\<not> queryset (timesheets db ! i) \<longrightarrow>
             timesheets (act queryset db) ! i = timesheets db ! i))
    \<and> leaves (act queryset db) = leaves db
    \<and> outbox (act queryset db) = outbox db
    \<and> database.more (act queryset db) = database.more db"
  using assms
  by (auto simp add: make_closed_def make_active_def make_pending_def
      queryset_update_length queryset_update_nth)

theorem timesheet_actions_frame_witness:
  "make_closed (\<lambda>r. month r = 2)
     \<lparr>leaves = [] :: leave list,
      timesheets = [\<lparr>timesheet.user = \<lparr>first_name = ''Ann'', email = ''ann@example.org''\<rparr>,
                     month = 1, year = 2024, timesheet.status = ACTIVE\<rparr>,
                    \<lparr>timesheet.user = \<lparr>first_name = ''Ann'', email = ''ann@example.org''\<rparr>,
                     month = 2, year = 2024, timesheet.status = PENDING\<rparr>],
      outbox = []\<rparr>
   = \<lparr>leaves = [],
      timesheets = [\<lparr>timesheet.user = \<lparr>first_name = ''Ann'', email = ''ann@example.org''\<rparr>,
                     month = 1, year = 2024, timesheet.status = ACTIVE\<rparr>,
                    \<lparr>timesheet.user = \<lparr>first_name = ''Ann'', email = ''ann@example.org''\<rparr>,
                     month = 2, year = 2024, timesheet.status = CLOSED\<rparr>],
      outbox = []\<rparr>"
proof -
  let ?t1 = "\<lparr>timesheet.user = \<lparr>first_name = ''Ann'', email = ''ann@example.org''\<rparr>,
                     month = 1, year = 2024, timesheet.status = ACTIVE\<rparr>"
  let ?t2 = "\<lparr>timesheet.user = \<lparr>first_name = ''Ann'', email = ''ann@example.org''\<rparr>,
                     month = 2, year = 2024, timesheet.status = PENDING\<rparr>"
  let ?db = "\<lparr>leaves = [] :: leave list, timesheets = [?t1, ?t2], outbox = []\<rparr>"
  let ?q = "\<lambda>r :: timesheet. month r = 2"
  let ?r = "make_closed ?q ?db"
  have a: "(make_closed, CLOSED) = (make_closed, CLOSED)
      \<or> (make_closed :: timesheet queryset \<Rightarrow> (unit, unit) database \<Rightarrow> _, CLOSED) = (make_active, ACTIVE)
      \<or> (make_closed :: timesheet queryset \<Rightarrow> (unit, unit) database \<Rightarrow> _, CLOSED) = (make_pending, PENDING)"
    by simp
  from timesheet_actions_frame [OF a, of ?q ?db]
  have n: "length (timesheets ?r) = 2"
    and i: "\<forall>i < 2. (?q ([?t1, ?t2] ! i) \<longrightarrow>
             timesheets ?r ! i = ([?t1, ?t2] ! i)\<lparr>timesheet.status := CLOSED\<rparr>)
        \<and> (\<not> ?q ([?t1, ?t2] ! i) \<longrightarrow> timesheets ?r ! i = [?t1, ?t2] ! i)"
    and l: "leaves ?r = []" and o: "outbox ?r = []"
    by simp_all
  from i have "timesheets ?r ! 0 = ?t1" "timesheets ?r ! 1 = ?t2\<lparr>timesheet.status := CLOSED\<rparr>"
    by (auto simp add: less_Suc_eq numeral_2_eq_2)
  with n have "timesheets ?r = [?t1, ?t2\<lparr>timesheet.status := CLOSED\<rparr>]"
    by (intro nth_equalityI) (auto simp add: less_Suc_eq numeral_2_eq_2)
  with l o have "?r = \<lparr>leaves = [], timesheets = [?t1, ?t2\<lparr>timesheet.status := CLOSED\<rparr>], outbox = []\<rparr>"
    by (cases ?r) simp
  then show ?thesis by simp
qed

section \<open>Properties of the performance admin\<close>

text \<open>
  The fallback that claim C6 describes. Whatever exception reading \<^verbatim>\<open>activityperformance\<close>
  raises, the methods of \<^verbatim>\<open>PerformanceParentAdmin\<close> swallow it: \<^verbatim>\<open>duration\<close>, \<^verbatim>\<open>description\<close>
  and \<^verbatim>\<open>contract_role\<close> return \<^verbatim>\<open>None\<close>, \<^verbatim>\<open>contract\<close> and \<^verbatim>\<open>performance_type\<close> return the
  translated label 'Standby'; a performance without the subtype is the case where the
  exception is \<^verbatim>\<open>RelatedObjectDoesNotExist\<close>. With the subtype present they return its
  columns.
\<close>

theorem subtype_resolution_fallback:
  fixes obj :: "('v, 'a) performance_scheme"
  shows "(\<forall>e. activityperformance obj = Inl e \<longrightarrow>
            PerformanceParentAdmin_duration obj = None
          \<and> PerformanceParentAdmin_description obj = None
          \<and> PerformanceParentAdmin_contract ugettext obj = Label (ugettext ''Standby'')
          \<and> PerformanceParentAdmin_performance_type ugettext obj = Label (ugettext ''Standby'')
          \<and> PerformanceParentAdmin_contract_role obj = None)
    \<and> (\<forall>a. activityperformance obj = Inr a \<longrightarrow>
            PerformanceParentAdmin_duration obj = Some (duration a)
          \<and> PerformanceParentAdmin_description obj = Some (activityperformance.description a)
          \<and> PerformanceParentAdmin_contract ugettext obj = Of (contract a)
          \<and> PerformanceParentAdmin_performance_type ugettext obj = Of (performance_type a)
          \<and> PerformanceParentAdmin_contract_role obj = Some (contract_role a))"
  by (simp add: PerformanceParentAdmin_duration_def PerformanceParentAdmin_description_def
      PerformanceParentAdmin_contract_def PerformanceParentAdmin_performance_type_def
      PerformanceParentAdmin_contract_role_def getattr_def)

section \<open>Properties of the WSGI module\<close>

text \<open>
  Claim C8. The WSGI module sets \<^verbatim>\<open>DJANGO_SETTINGS_MODULE\<close> and \<^verbatim>\<open>DJANGO_CONFIGURATION\<close> only
  where they have no value: a value already there stays, a missing one becomes
  'ninetofiver.settings', respectively what \<^verbatim>\<open>get_django_configuration()\<close> returns. The
  module attribute \<^verbatim>\<open>application\<close> is what the framework's \<^verbatim>\<open>get_wsgi_application()\<close>
  returns when called in the environment so prepared, and the environment the module
  leaves is the one that call leaves.
\<close>

theorem wsgi_setdefault:
  "(env ''DJANGO_SETTINGS_MODULE'' = None \<longrightarrow>
      wsgi_environ get_django_configuration env ''DJANGO_SETTINGS_MODULE''
        = Some ''ninetofiver.settings'')
   \<and> (\<forall>v. env ''DJANGO_SETTINGS_MODULE'' = Some v \<longrightarrow>
      wsgi_environ get_django_configuration env ''DJANGO_SETTINGS_MODULE'' = Some v)
   \<and> (env ''DJANGO_CONFIGURATION'' = None \<longrightarrow>
      wsgi_environ get_django_configuration env ''DJANGO_CONFIGURATION''
        = Some (get_django_configuration
                  (setdefault env ''DJANGO_SETTINGS_MODULE'' ''ninetofiver.settings'')))
   \<and> (\<forall>v. env ''DJANGO_CONFIGURATION'' = Some v \<longrightarrow>
      wsgi_environ get_django_configuration env ''DJANGO_CONFIGURATION'' = Some v)
   \<and> application (wsgi get_django_configuration get_wsgi_application env)
       = fst (get_wsgi_application (wsgi_environ get_django_configuration env))
   \<and> environ (wsgi get_django_configuration get_wsgi_application env)
       = snd (get_wsgi_application (wsgi_environ get_django_configuration env))"
  by (auto simp add: wsgi_def wsgi_environ_def setdefault_def Let_def
      split: option.splits prod.splits)

theorem wsgi_setdefault_witness:
  "wsgi_environ (\<lambda>env. ''Dev'') [''DJANGO_CONFIGURATION'' \<mapsto> ''Prod'']
      ''DJANGO_SETTINGS_MODULE'' = Some ''ninetofiver.settings''
   \<and> wsgi_environ (\<lambda>env. ''Dev'') [''DJANGO_CONFIGURATION'' \<mapsto> ''Prod'']
      ''DJANGO_CONFIGURATION'' = Some ''Prod''
   \<and> wsgi_environ (\<lambda>env. ''Dev'') Map.empty ''DJANGO_CONFIGURATION'' = Some ''Dev''
   \<and> wsgi_environ (\<lambda>env. ''Dev'') [''DJANGO_SETTINGS_MODULE'' \<mapsto> ''other.settings'']
      ''DJANGO_SETTINGS_MODULE'' = Some ''other.settings''
   \<and> application
        (wsgi (\<lambda>env. ''Dev'') (\<lambda>env. (''handler'', env(''TZ'' \<mapsto> ''UTC'')))
           [''DJANGO_CONFIGURATION'' \<mapsto> ''Prod'']) = ''handler''
   \<and> environ
        (wsgi (\<lambda>env. ''Dev'') (\<lambda>env. (''handler'', env(''TZ'' \<mapsto> ''UTC'')))
           [''DJANGO_CONFIGURATION'' \<mapsto> ''Prod'']) ''TZ'' = Some ''UTC''"
  using wsgi_setdefault [of "[''DJANGO_CONFIGURATION'' \<mapsto> ''Prod'']" "\<lambda>env. ''Dev''"
      "\<lambda>env. (''handler'', env(''TZ'' \<mapsto> ''UTC''))"]
    wsgi_setdefault [of Map.empty "\<lambda>env. ''Dev''" "\<lambda>env. (''handler'', env)"]
    wsgi_setdefault [of "[''DJANGO_SETTINGS_MODULE'' \<mapsto> ''other.settings'']" "\<lambda>env. ''Dev''"
      "\<lambda>env. (''handler'', env)"]
  by simp

end
